theory Spec2Isabelle
  imports Complex_Main
begin

section \<open>Configuration restore: the data\<close>

text \<open>
  The command \<^verbatim>\<open>configurationRestore.js\<close> reads a JSON array of configuration records and
  reconciles each record with the core store under one of three strategies. The values it
  handles are what \<^verbatim>\<open>JSON.parse\<close> returns. Numbers are copied and compared, and lodash tests
  whether one is a valid length; their type is a parameter, any ordered field with a floor
  (the rationals, the reals). An object is the list of its properties in enumeration order;
  a JavaScript object has each property name once.

  \<open>JOpaque\<close> stands for an outcome that the model does not track. lodash's merge can
  leave JSON data, where it merges a mapping into an array (the array then carries named
  properties or holes) or copies an array-like mapping with missing positions, and it can
  throw, where it sets the length of an array. \<^verbatim>\<open>JSON.parse\<close> never returns such a value, so
  it is never the input or a record of the input, and what the definitions say of \<open>JOpaque\<close>
  in that place is immaterial.
\<close>

datatype 'n json =
    JNull
  | JBool bool
  | JNum 'n
  | JStr string
  | JArr "'n json list"
  | JObj "(string \<times> 'n json) list"
  | JOpaque

type_synonym 'n fields = "(string \<times> 'n json) list"

text \<open>
  What the command throws: \<^verbatim>\<open>new Error(message)\<close>, and the runtime's \<^verbatim>\<open>TypeError\<close> for a
  property read on \<^verbatim>\<open>null\<close>. A failing store call throws a value of the same type.
\<close>

datatype error = Error string | TypeError

section \<open>Property access\<close>

text \<open>Decimal rendering of a number, as a template literal and an array index do it.\<close>

definition digit :: "nat \<Rightarrow> char" where
  "digit n = ''0123456789'' ! (n mod 10)"

fun decimal :: "nat \<Rightarrow> string" where
  "decimal n = (if n < 10 then [digit n] else decimal (n div 10) @ [digit (n mod 10)])"

declare decimal.simps [simp del]

text \<open>
  A property name is an array index when it is the decimal rendering of a number below
  \<open>2^32 - 1\<close>. JavaScript enumerates the properties of an object with the array indices first,
  in ascending order, and the other names after them, in the order of their creation.
\<close>

definition digit_of :: "char \<Rightarrow> nat" where
  "digit_of c = length (takeWhile (\<lambda>d. d \<noteq> c) ''0123456789'')"

definition number_of :: "string \<Rightarrow> nat" where
  "number_of k = foldl (\<lambda>n c. 10 * n + digit_of c) 0 k"

definition array_index :: "string \<Rightarrow> nat option" where
  "array_index k =
     (if k \<noteq> [] \<and> set k \<subseteq> set ''0123456789'' \<and> decimal (number_of k) = k
         \<and> number_of k < 4294967295
      then Some (number_of k) else None)"

definition goes_before :: "string \<Rightarrow> string \<Rightarrow> bool" where
  "goes_before k k' =
     (case array_index k of
        None \<Rightarrow> False
      | Some i \<Rightarrow> (case array_index k' of None \<Rightarrow> True | Some j \<Rightarrow> i < j))"


text \<open>
  \<^verbatim>\<open>object[key] = value\<close> on a plain object: an existing property keeps its place in the
  enumeration order, a new one takes the place the order gives it.
\<close>

fun assign :: "'n fields \<Rightarrow> string \<Rightarrow> 'n json \<Rightarrow> 'n fields" where
  "assign [] k v = [(k, v)]"
| "assign ((k', v') # fs) k v =
     (if k' = k then (k', v) # fs
      else if goes_before k k' \<and> k \<notin> fst ` set fs then (k, v) # (k', v') # fs
      else (k', v') # assign fs k v)"

text \<open>
  \<^verbatim>\<open>conf.key\<close>: reading a property of \<^verbatim>\<open>null\<close> throws; an object gives the property's
  value or \<^verbatim>\<open>undefined\<close> (\<open>None\<close>); booleans, numbers, strings and arrays have no property
  \<^verbatim>\<open>key\<close>.
\<close>

fun prop_key :: "'n json \<Rightarrow> error + 'n json option" where
  "prop_key JNull = Inl TypeError"
| "prop_key (JObj fs) = Inr (map_of fs ''key'')"
| "prop_key _ = Inr None"

section \<open>The deep merge of lodash\<close>

text \<open>
  \<^verbatim>\<open>_.merge(object, source)\<close> is a function of the lodash library, which the command
  requires; it is not part of this repository. The model follows the library's code
  (release 4.17: \<^verbatim>\<open>baseMerge\<close>, \<^verbatim>\<open>baseMergeDeep\<close>, \<^verbatim>\<open>assignMergeValue\<close>, \<^verbatim>\<open>safeGet\<close>,
  \<^verbatim>\<open>isArrayLike\<close>, \<^verbatim>\<open>copyArray\<close>) on JSON data.

  \<open>mergeValue ov sv\<close> is the value that ends up under one key: \<open>ov\<close> is the destination's
  value there (\<open>None\<close> when it has none), \<open>sv\<close> the source's.
  \<^item> A source primitive is assigned.
  \<^item> A source mapping is merged into a destination mapping, property by property
    (\<open>mergeFields\<close>); into a fresh object when the destination holds no value or a primitive
    one. A destination array is kept and receives the source's properties (\<open>mergeProps\<close>): a
    property named by a position of the array is merged into that position, one named by
    the next position is appended, and a \<^verbatim>\<open>length\<close> that converts to a length not above the
    array's truncates it. With any other property the outcome is not tracked (\<open>None\<close>, then
    \<open>JOpaque\<close>): the array gets a hole or a named property and is no longer JSON data, or
    the assignment to its \<^verbatim>\<open>length\<close> throws or converts a string.
  \<^item> A source array is merged into a destination array position by position
    (\<open>mergeSlots\<close>); into a fresh array when the destination holds no value, a primitive one
    or a mapping that is not array-like. An array-like mapping (its \<^verbatim>\<open>length\<close> is a number
    that \<^verbatim>\<open>isLength\<close> accepts) is first copied as an array of that length, position \<open>i\<close>
    taking the property \<open>i\<close> of the mapping or \<^verbatim>\<open>undefined\<close>; a length above \<open>2^32 - 1\<close> makes
    \<^verbatim>\<open>Array(length)\<close> throw, and a position left \<^verbatim>\<open>undefined\<close> is not JSON data.
  \<^item> The library's guard against prototype pollution skips a source property named
    \<^verbatim>\<open>__proto__\<close> that holds a mapping or an array.
\<close>

definition isLength :: "('n::floor_ceiling) \<Rightarrow> bool" where
  "isLength n = (- 1 < n \<and> of_int \<lfloor>n\<rfloor> = n \<and> n \<le> 9007199254740991)"

definition array_like :: "('n::floor_ceiling) fields \<Rightarrow> bool" where
  "array_like fs = (case map_of fs ''length'' of Some (JNum n) \<Rightarrow> isLength n | _ \<Rightarrow> False)"

definition too_long :: "('n::floor_ceiling) fields \<Rightarrow> bool" where
  "too_long fs = (case map_of fs ''length'' of Some (JNum n) \<Rightarrow> 4294967295 < n | _ \<Rightarrow> False)"

definition copyArray :: "('n::floor_ceiling) fields \<Rightarrow> 'n json option list" where
  "copyArray fs =
     (case map_of fs ''length'' of
        Some (JNum n) \<Rightarrow> map (\<lambda>i. map_of fs (decimal i)) [0..<nat \<lfloor>n\<rfloor>]
      | _ \<Rightarrow> [])"

text \<open>
  \<^verbatim>\<open>array.length = value\<close>: the length that \<^verbatim>\<open>null\<close>, a boolean or a number converts to, when
  it is one (an integer from \<open>0\<close> to \<open>2^32 - 1\<close>). Another number makes the assignment throw; the
  conversion of a string, an array or a mapping is not followed.
\<close>

fun to_length :: "('n::floor_ceiling) json \<Rightarrow> nat option" where
  "to_length JNull = Some 0"
| "to_length (JBool b) = Some (if b then 1 else 0)"
| "to_length (JNum n) =
     (if 0 \<le> n \<and> n \<le> 4294967295 \<and> of_int \<lfloor>n\<rfloor> = n then Some (nat \<lfloor>n\<rfloor>) else None)"
| "to_length _ = None"

fun present :: "'a option list \<Rightarrow> 'a list" where
  "present [] = []"
| "present (None # os) = present os"
| "present (Some v # os) = v # present os"

fun is_object :: "'n json \<Rightarrow> bool" where
  "is_object (JObj fs) = True"
| "is_object (JArr vs) = True"
| "is_object JOpaque = True"
| "is_object _ = False"

definition guarded :: "string \<Rightarrow> 'n json \<Rightarrow> bool" where
  "guarded k sv = (k = ''__proto__'' \<and> is_object sv)"

fun mergeValue :: "('n::floor_ceiling) json option \<Rightarrow> 'n json \<Rightarrow> 'n json"
  and mergeFields :: "('n::floor_ceiling) fields \<Rightarrow> 'n fields \<Rightarrow> 'n fields"
  and mergeSlots :: "('n::floor_ceiling) json option list \<Rightarrow> 'n json list \<Rightarrow> 'n json list"
  and mergeProps :: "('n::floor_ceiling) json list \<Rightarrow> 'n fields \<Rightarrow> 'n json list option"
where
  "mergeValue ov (JObj sfs) =
     (case ov of
        Some (JObj ofs) \<Rightarrow> JObj (mergeFields ofs sfs)
      | Some (JArr oes) \<Rightarrow> (case mergeProps oes sfs of Some es \<Rightarrow> JArr es | None \<Rightarrow> JOpaque)
      | Some JOpaque \<Rightarrow> JOpaque
      | _ \<Rightarrow> JObj (mergeFields [] sfs))"
| "mergeValue ov (JArr ses) =
     (case ov of
        Some (JArr oes) \<Rightarrow> JArr (mergeSlots (map Some oes) ses)
      | Some (JObj ofs) \<Rightarrow>
          if array_like ofs
          then (if too_long ofs \<or> None \<in> set (drop (length ses) (copyArray ofs)) then JOpaque
                else JArr (mergeSlots (copyArray ofs) ses))
          else JArr (mergeSlots [] ses)
      | Some JOpaque \<Rightarrow> JOpaque
      | _ \<Rightarrow> JArr (mergeSlots [] ses))"
| "mergeValue ov JOpaque = JOpaque"
| "mergeValue ov JNull = JNull"
| "mergeValue ov (JBool b) = JBool b"
| "mergeValue ov (JNum n) = JNum n"
| "mergeValue ov (JStr s) = JStr s"
| "mergeFields ofs [] = ofs"
| "mergeFields ofs ((k, sv) # rest) =
     mergeFields (if guarded k sv then ofs else assign ofs k (mergeValue (map_of ofs k) sv)) rest"
| "mergeSlots os [] = present os"
| "mergeSlots [] (sv # ses) = mergeValue None sv # mergeSlots [] ses"
| "mergeSlots (ov # os) (sv # ses) = mergeValue ov sv # mergeSlots os ses"
| "mergeProps oes [] = Some oes"
| "mergeProps oes ((k, sv) # rest) =
     (if guarded k sv then mergeProps oes rest
      else case array_index k of
        None \<Rightarrow>
          if k = ''length''
          then (case to_length sv of
                  Some n \<Rightarrow> if n \<le> length oes then mergeProps (take n oes) rest else None
                | None \<Rightarrow> None)
          else None
      | Some i \<Rightarrow>
          if i < length oes then mergeProps (oes[i := mergeValue (Some (oes ! i)) sv]) rest
          else if i = length oes then mergeProps (oes @ [mergeValue None sv]) rest
          else None)"

text \<open>
  The properties lodash enumerates on the top-level source: those of an object, the
  positions of an array, the characters of a string; a boolean or a number has none.
\<close>

fun own_props :: "'n json \<Rightarrow> 'n fields" where
  "own_props (JObj sfs) = sfs"
| "own_props (JArr ses) = zip (map decimal [0..<length ses]) ses"
| "own_props (JStr s) = zip (map decimal [0..<length s]) (map (\<lambda>c. JStr [c]) s)"
| "own_props _ = []"

text \<open>\<^verbatim>\<open>_.merge(existingConf, conf)\<close>, with a record as destination.\<close>

definition merge :: "('n::floor_ceiling) fields \<Rightarrow> 'n json \<Rightarrow> 'n json" where
  "merge existingConf conf =
     (case conf of JOpaque \<Rightarrow> JOpaque | _ \<Rightarrow> JObj (mergeFields existingConf (own_props conf)))"

section \<open>The store interface\<close>

text \<open>
  Modelled from the spec: the query interface of the core store, \<^verbatim>\<open>db.query('core_store')\<close>,
  whose code is outside this file. It has four operations, parameterized by a filter
  \<^verbatim>\<open>{ key: value }\<close>: \<^verbatim>\<open>count(filter) -> integer\<close>, \<^verbatim>\<open>find(filter) -> record or absent\<close>,
  \<^verbatim>\<open>create(record) -> void\<close> and \<^verbatim>\<open>update(filter, record) -> void\<close>. Each call is atomic and may
  fail: the two queries read the store, a failed write leaves it as it was. The store is a
  parameter of the command (\<^verbatim>\<open>app.db\<close>); \<open>'s\<close> is the type of its contents. The filter's value is
  \<^verbatim>\<open>conf.key\<close>, which may be \<^verbatim>\<open>undefined\<close> (\<open>None\<close>).
\<close>

record ('n, 's) db =
  db_count :: "'n json option \<Rightarrow> 's \<Rightarrow> error + int"
  db_find :: "'n json option \<Rightarrow> 's \<Rightarrow> error + 'n fields option"
  db_create :: "'n json \<Rightarrow> 's \<Rightarrow> error + 's"
  db_update :: "'n json option \<Rightarrow> 'n json \<Rightarrow> 's \<Rightarrow> error + 's"

text \<open>
  A run of the command is followed in a world: the contents of the store and the list of
  the store calls made so far, oldest first.
\<close>

datatype 'n call =
    Count "'n json option"
  | Find "'n json option"
  | Create "'n json"
  | Update "'n json option" "'n json"

record ('n, 's) world =
  store :: 's
  calls :: "'n call list"

definition logged :: "'n call \<Rightarrow> ('n, 's) world \<Rightarrow> ('n, 's) world" where
  "logged c w = w\<lparr>calls := calls w @ [c]\<rparr>"

definition count :: "('n, 's) db \<Rightarrow> 'n json option \<Rightarrow> ('n, 's) world \<Rightarrow> (error + int) \<times> ('n, 's) world" where
  "count db k w = (db_count db k (store w), logged (Count k) w)"

definition find_conf :: "('n, 's) db \<Rightarrow> 'n json option \<Rightarrow> ('n, 's) world \<Rightarrow> (error + 'n fields option) \<times> ('n, 's) world" where
  "find_conf db k w = (db_find db k (store w), logged (Find k) w)"

definition create :: "('n, 's) db \<Rightarrow> 'n json \<Rightarrow> ('n, 's) world \<Rightarrow> (error + unit) \<times> ('n, 's) world" where
  "create db conf w =
     (case db_create db conf (store w) of
        Inl e \<Rightarrow> (Inl e, logged (Create conf) w)
      | Inr s \<Rightarrow> (Inr (), logged (Create conf) (w\<lparr>store := s\<rparr>)))"

definition update :: "('n, 's) db \<Rightarrow> 'n json option \<Rightarrow> 'n json \<Rightarrow> ('n, 's) world \<Rightarrow> (error + unit) \<times> ('n, 's) world" where
  "update db k conf w =
     (case db_update db k conf (store w) of
        Inl e \<Rightarrow> (Inl e, logged (Update k conf) w)
      | Inr s \<Rightarrow> (Inr (), logged (Update k conf) (w\<lparr>store := s\<rparr>)))"

section \<open>The importers\<close>

type_synonym ('n, 's) importer = "'n json \<Rightarrow> ('n, 's) world \<Rightarrow> (error + unit) \<times> ('n, 's) world"

text \<open>
  \<^verbatim>\<open>createReplaceImporter(db).import(conf)\<close>: count the entries under \<^verbatim>\<open>conf.key\<close>, then update
  or create.
\<close>

definition createReplaceImporter :: "('n, 's) db \<Rightarrow> ('n, 's) importer" where
  "createReplaceImporter db conf w =
     (case prop_key conf of
        Inl e \<Rightarrow> (Inl e, w)
      | Inr k \<Rightarrow>
          (case count db k w of
             (Inl e, w') \<Rightarrow> (Inl e, w')
           | (Inr matching, w') \<Rightarrow>
               if matching > 0 then update db k conf w' else create db conf w'))"

text \<open>
  \<^verbatim>\<open>createMergeImporter(db).import(conf)\<close>: fetch the entry under \<^verbatim>\<open>conf.key\<close>; a record is
  truthy, an absent one is not.
\<close>

definition createMergeImporter :: "('n::floor_ceiling, 's) db \<Rightarrow> ('n, 's) importer" where
  "createMergeImporter db conf w =
     (case prop_key conf of
        Inl e \<Rightarrow> (Inl e, w)
      | Inr k \<Rightarrow>
          (case find_conf db k w of
             (Inl e, w') \<Rightarrow> (Inl e, w')
           | (Inr (Some existingConf), w') \<Rightarrow> update db k (merge existingConf conf) w'
           | (Inr None, w') \<Rightarrow> create db conf w'))"

text \<open>
  \<^verbatim>\<open>createKeepImporter(db).import(conf)\<close>: "if configuration already exists do not overwrite
  it".
\<close>

definition createKeepImporter :: "('n, 's) db \<Rightarrow> ('n, 's) importer" where
  "createKeepImporter db conf w =
     (case prop_key conf of
        Inl e \<Rightarrow> (Inl e, w)
      | Inr k \<Rightarrow>
          (case count db k w of
             (Inl e, w') \<Rightarrow> (Inl e, w')
           | (Inr matching, w') \<Rightarrow>
               if matching > 0 then (Inr (), w') else create db conf w'))"

definition quoted :: "string \<Rightarrow> string" where
  "quoted s = [CHR 0x22] @ s @ [CHR 0x22]"

definition createImporter :: "('n::floor_ceiling, 's) db \<Rightarrow> string \<Rightarrow> error + ('n, 's) importer" where
  "createImporter db strategy =
     (if strategy = ''replace'' then Inr (createReplaceImporter db)
      else if strategy = ''merge'' then Inr (createMergeImporter db)
      else if strategy = ''keep'' then Inr (createKeepImporter db)
      else Inl (Error (''No importer available for strategy '' @ quoted strategy)))"

section \<open>The command\<close>

text \<open>
  The loop \<^verbatim>\<open>for (const config of dataToImport) await importer.import(config)\<close>: one record
  after the other, and a rejected \<^verbatim>\<open>await\<close> leaves the loop.
\<close>

fun import_all :: "('n, 's) importer \<Rightarrow> 'n json list \<Rightarrow> ('n, 's) world \<Rightarrow> (error + unit) \<times> ('n, 's) world" where
  "import_all importer [] w = (Inr (), w)"
| "import_all importer (config # rest) w =
     (case importer config w of
        (Inl e, w') \<Rightarrow> (Inl e, w')
      | (Inr u, w') \<Rightarrow> import_all importer rest w')"

fun isArray :: "'n json \<Rightarrow> bool" where
  "isArray (JArr vs) = True"
| "isArray _ = False"

fun elements :: "'n json \<Rightarrow> 'n json list" where
  "elements (JArr vs) = vs"
| "elements _ = []"

text \<open>
  \<^verbatim>\<open>module.exports\<close>, the command itself. Reading the file or standard input and loading the
  application are outside the model: \<open>input\<close> is the text read and \<open>db\<close> is \<^verbatim>\<open>app.db\<close>.
  \<^verbatim>\<open>JSON.parse\<close> is a parameter; it returns the parsed value or the message of the error it
  throws. The strategy is \<open>None\<close> when the caller passes none. A successful run returns the
  line it prints before it exits with status 0.
\<close>

definition module_exports ::
  "(string \<Rightarrow> string + ('n::floor_ceiling) json) \<Rightarrow> ('n, 's) db \<Rightarrow> string \<Rightarrow> string option \<Rightarrow> ('n, 's) world
     \<Rightarrow> (error + string) \<times> ('n, 's) world" where
  "module_exports JSON_parse db input strategy_arg w =
     (let strategy = (case strategy_arg of None \<Rightarrow> ''replace'' | Some s \<Rightarrow> s) in
      case JSON_parse input of
        Inl message \<Rightarrow>
          (Inl (Error (''Invalid input data: '' @ message @ ''. Expected a valid JSON array.'')), w)
      | Inr dataToImport \<Rightarrow>
          if \<not> isArray dataToImport
          then (Inl (Error ''Invalid input data. Expected a valid JSON array.''), w)
          else
            (case createImporter db strategy of
               Inl e \<Rightarrow> (Inl e, w)
             | Inr importer \<Rightarrow>
                 (case import_all importer (elements dataToImport) w of
                    (Inl e, w') \<Rightarrow> (Inl e, w')
                  | (Inr u, w') \<Rightarrow>
                      (Inr (''Successfully imported '' @ decimal (length (elements dataToImport))
                            @ '' configuration entries using the '' @ quoted strategy
                            @ '' strategy.''), w'))))"

section \<open>A core store\<close>

text \<open>
  Modelled from the spec: a store that keeps its entries in a list. An entry is addressed by
  its \<^verbatim>\<open>key\<close> field; \<open>count\<close> gives the number of entries under a key, \<open>find\<close> the entry under
  it, \<open>create\<close> adds an entry with the given payload, and \<open>update\<close> sets the payload of the
  entry under the key to the given one in full. The spec's invariant is that at most one
  entry exists per key.
\<close>

definition addressed :: "'n json option \<Rightarrow> 'n json \<Rightarrow> bool" where
  "addressed k entry = (case entry of JObj fs \<Rightarrow> map_of fs ''key'' = k | _ \<Rightarrow> False)"

definition entries_of :: "'n json option \<Rightarrow> 'n json list \<Rightarrow> 'n json list" where
  "entries_of k es = filter (addressed k) es"

definition core_store :: "('n, 'n json list) db" where
  "core_store =
     \<lparr> db_count = (\<lambda>k es. Inr (int (length (entries_of k es)))),
       db_find = (\<lambda>k es. Inr (case entries_of k es of JObj fs # _ \<Rightarrow> Some fs | _ \<Rightarrow> None)),
       db_create = (\<lambda>conf es. Inr (es @ [conf])),
       db_update = (\<lambda>k conf es. Inr (map (\<lambda>e. if addressed k e then conf else e) es)) \<rparr>"

text \<open>
  Modelled from the spec: a store call may fail (the spec's store operation failure). This
  core store rejects the writes whose payload is in \<open>bad\<close>.
\<close>

definition failing_on :: "('n json \<Rightarrow> bool) \<Rightarrow> ('n, 'n json list) db" where
  "failing_on bad =
     core_store
       \<lparr> db_create := (\<lambda>conf es. if bad conf then Inl (Error ''store failure'')
                                 else db_create core_store conf es),
         db_update := (\<lambda>k conf es. if bad conf then Inl (Error ''store failure'')
                                   else db_update core_store k conf es) \<rparr>"

section \<open>Payloads\<close>





text \<open>The record \<^verbatim>\<open>{ key: k, v: n }\<close> of the spec's examples.\<close>

definition entry :: "string \<Rightarrow> real \<Rightarrow> real json" where
  "entry k n = JObj [(''key'', JStr k), (''v'', JNum n)]"

section \<open>Store calls and the loop\<close>

lemmas store_call_defs = count_def find_conf_def create_def update_def logged_def

lemma createImporter_cases:
  assumes "createImporter db strategy = Inr importer"
  obtains "strategy = ''replace''" and "importer = createReplaceImporter db"
  | "strategy = ''merge''" and "importer = createMergeImporter db"
  | "strategy = ''keep''" and "importer = createKeepImporter db"
  using assms by (auto simp: createImporter_def split: if_splits)



section \<open>The core store\<close>

lemma core_store_simps [simp]:
  "db_count core_store k es = Inr (int (length (entries_of k es)))"
  "db_find core_store k es = Inr (case entries_of k es of JObj fs # _ \<Rightarrow> Some fs | _ \<Rightarrow> None)"
  "db_create core_store conf es = Inr (es @ [conf])"
  "db_update core_store k conf es = Inr (map (\<lambda>e. if addressed k e then conf else e) es)"
  by (simp_all add: core_store_def)

lemma failing_on_simps [simp]:
  "db_count (failing_on bad) k es = Inr (int (length (entries_of k es)))"
  "db_find (failing_on bad) k es = Inr (case entries_of k es of JObj fs # _ \<Rightarrow> Some fs | _ \<Rightarrow> None)"
  "db_create (failing_on bad) conf es = (if bad conf then Inl (Error ''store failure'') else Inr (es @ [conf]))"
  "db_update (failing_on bad) k conf es =
     (if bad conf then Inl (Error ''store failure'')
      else Inr (map (\<lambda>e. if addressed k e then conf else e) es))"
  by (simp_all add: failing_on_def)

lemma entries_of_Nil [simp]: "entries_of k [] = []"
  by (simp add: entries_of_def)

lemma entries_of_Cons:
  "entries_of k (e # es) = (if addressed k e then e # entries_of k es else entries_of k es)"
  by (simp add: entries_of_def)

lemma entries_of_append [simp]:
  "entries_of k (es @ es') = entries_of k es @ entries_of k es'"
  by (simp add: entries_of_def)

lemma addressed_record [simp]: "addressed k (JObj fs) = (map_of fs ''key'' = k)"
  by (simp add: addressed_def)

lemma addressed_unique: "addressed k e \<Longrightarrow> addressed k' e \<Longrightarrow> k = k'"
  by (auto simp: addressed_def split: json.splits)

lemma entries_of_overwritten:
  assumes "addressed k conf"
  shows "entries_of k (map (\<lambda>e. if addressed k e then conf else e) es)
           = replicate (length (entries_of k es)) conf"
  using assms by (induction es) (simp_all add: entries_of_Cons)

lemma entries_of_other_key:
  assumes "addressed k conf" and "k' \<noteq> k"
  shows "entries_of k' (map (\<lambda>e. if addressed k e then conf else e) es) = entries_of k' es"
  using assms by (induction es) (auto simp: entries_of_Cons dest: addressed_unique)

lemma overwrite_absent:
  assumes "entries_of k es = []"
  shows "map (\<lambda>e. if addressed k e then conf else e) es = es"
  using assms by (induction es) (simp_all add: entries_of_Cons split: if_splits)

section \<open>Properties of the deep merge\<close>
















lemma present_Some [simp]: "present (map Some vs) = vs"
  by (induction vs) simp_all





section \<open>The replace strategy\<close>

text \<open>
  Claim C1. Replace, on the core store. Take a record \<open>conf\<close> with key \<open>k\<close> and a store that
  has at most one entry under \<open>k\<close> (the store's invariant). The import succeeds with two store
  calls: first the count of the entries under \<open>k\<close>, then an update of the entry under \<open>k\<close> with
  \<open>conf\<close> if there is one, and a creation of \<open>conf\<close> otherwise. Afterwards exactly one entry
  exists under \<open>k\<close> and its payload is \<open>conf\<close> itself, whatever the entry held before; the
  entries under the other keys are as they were.
\<close>

theorem replace_leaves_one_entry_equal_to_conf:
  assumes "map_of fs ''key'' = Some k" and "length (entries_of (Some k) es) \<le> 1"
  shows "\<exists>es'. createReplaceImporter core_store (JObj fs) \<lparr>store = es, calls = cs\<rparr>
            = (Inr (), \<lparr>store = es',
                 calls = cs @ [Count (Some k),
                   if entries_of (Some k) es = [] then Create (JObj fs)
                   else Update (Some k) (JObj fs)]\<rparr>)
          \<and> entries_of (Some k) es' = [JObj fs]
          \<and> (\<forall>k'. k' \<noteq> Some k \<longrightarrow> entries_of k' es' = entries_of k' es)"
proof (cases "entries_of (Some k) es")
  case Nil
  with assms(1) show ?thesis
    by (auto simp: createReplaceImporter_def store_call_defs entries_of_Cons)
next
  case (Cons e rest)
  with assms(2) have one: "length (entries_of (Some k) es) = 1" by simp
  have conf: "addressed (Some k) (JObj fs)" using assms(1) by simp
  show ?thesis
    using assms(1) Cons one entries_of_overwritten [OF conf, of es] entries_of_other_key [OF conf]
    by (auto simp: createReplaceImporter_def store_call_defs)
qed

theorem replace_leaves_one_entry_equal_to_conf_witness:
  "map_of [(''key'', JStr ''a''), (''v'', JNum (2::real))] ''key'' = Some (JStr ''a'')
   \<and> length (entries_of (Some (JStr ''a'')) [entry ''a'' 1, entry ''b'' 7]) \<le> 1
   \<and> createReplaceImporter core_store (JObj [(''key'', JStr ''a''), (''v'', JNum 2)])
        \<lparr>store = [entry ''a'' 1, entry ''b'' 7], calls = []\<rparr>
      = (Inr (), \<lparr>store = [entry ''a'' 2, entry ''b'' 7],
           calls = [Count (Some (JStr ''a'')), Update (Some (JStr ''a'')) (entry ''a'' 2)]\<rparr>)
   \<and> entries_of (Some (JStr ''a'')) [entry ''a'' 2, entry ''b'' 7] = [entry ''a'' 2]"
  using replace_leaves_one_entry_equal_to_conf
          [where fs = "[(''key'', JStr ''a''), (''v'', JNum (2::real))]" and k = "JStr ''a''"
             and es = "[entry ''a'' 1, entry ''b'' 7]" and cs = "[]"]
  by (simp add: entry_def createReplaceImporter_def store_call_defs entries_of_Cons)

section \<open>The merge strategy\<close>







section \<open>The keep strategy\<close>

text \<open>
  Claim C4. Keep. When the store's count for the record's key is positive, the import
  succeeds after that one call: the world differs from the one before only by the logged
  count, so the store, and with it the existing entry, is untouched and the record is
  dropped. The only call the keep importer ever makes besides the count is the creation of
  the record, and it makes it only when the count was not positive.
\<close>

theorem keep_never_writes_over_an_existing_entry:
  assumes "prop_key conf = Inr k"
  shows "(\<forall>matching. db_count db k (store w) = Inr matching \<and> 0 < matching \<longrightarrow>
            createKeepImporter db conf w = (Inr (), w\<lparr>calls := calls w @ [Count k]\<rparr>))
       \<and> (\<forall>r w' c. createKeepImporter db conf w = (r, w')
              \<and> c \<in> set (drop (length (calls w)) (calls w')) \<and> c \<noteq> Count k \<longrightarrow>
            c = Create conf \<and> (\<exists>m. db_count db k (store w) = Inr m \<and> m \<le> 0))"
  using assms
  by (auto simp: createKeepImporter_def store_call_defs split: sum.splits if_splits)

theorem keep_never_writes_over_an_existing_entry_witness:
  "prop_key (entry ''a'' 2) = Inr (Some (JStr ''a''))
   \<and> db_count core_store (Some (JStr ''a'')) [entry ''a'' 1] = Inr 1
   \<and> createKeepImporter core_store (entry ''a'' 2) \<lparr>store = [entry ''a'' 1], calls = []\<rparr>
      = (Inr (), \<lparr>store = [entry ''a'' 1], calls = [Count (Some (JStr ''a''))]\<rparr>)"
proof -
  let ?w = "\<lparr>store = [entry ''a'' 1], calls = []\<rparr> :: (real, real json list) world"
  have h1: "prop_key (entry ''a'' 2) = Inr (Some (JStr ''a''))" by (simp add: entry_def)
  have h2: "db_count core_store (Some (JStr ''a'')) (store ?w) = Inr 1"
    by (simp add: entry_def entries_of_Cons)
  from keep_never_writes_over_an_existing_entry [OF h1, of core_store ?w]
  have "db_count core_store (Some (JStr ''a'')) (store ?w) = Inr 1 \<and> (0::int) < 1 \<longrightarrow>
        createKeepImporter core_store (entry ''a'' 2) ?w
          = (Inr (), ?w\<lparr>calls := calls ?w @ [Count (Some (JStr ''a''))]\<rparr>)"
    by blast
  with h1 h2 show ?thesis by simp
qed

section \<open>Records whose key is absent\<close>

text \<open>
  Claim C5. On the core store, under each of the three strategies, importing a record whose
  key no entry of the store has succeeds with two store calls, the query (a find under merge,
  a count otherwise) and the creation of the record; the store afterwards is the store before
  with one more entry, the record itself.
\<close>

theorem absent_key_creates_one_entry:
  assumes "createImporter core_store strategy = Inr importer"
    and "entries_of (map_of fs ''key'') es = []"
  shows "importer (JObj fs) \<lparr>store = es, calls = cs\<rparr>
           = (Inr (), \<lparr>store = es @ [JObj fs],
                calls = cs @ [if strategy = ''merge'' then Find (map_of fs ''key'')
                              else Count (map_of fs ''key''), Create (JObj fs)]\<rparr>)"
  using assms(1)
proof (cases rule: createImporter_cases)
  case 1
  with assms(2) show ?thesis by (simp add: createReplaceImporter_def store_call_defs)
next
  case 2
  with assms(2) show ?thesis by (simp add: createMergeImporter_def store_call_defs)
next
  case 3
  with assms(2) show ?thesis by (simp add: createKeepImporter_def store_call_defs)
qed

theorem absent_key_creates_one_entry_witness:
  "createImporter core_store ''merge''
     = Inr (createMergeImporter core_store :: (real, real json list) importer)
   \<and> entries_of (map_of [(''key'', JStr ''a''), (''v'', JNum (1::real))] ''key'') [entry ''b'' 7] = []
   \<and> createMergeImporter core_store (JObj [(''key'', JStr ''a''), (''v'', JNum 1)])
        \<lparr>store = [entry ''b'' 7], calls = []\<rparr>
      = (Inr (), \<lparr>store = [entry ''b'' 7, JObj [(''key'', JStr ''a''), (''v'', JNum 1)]],
           calls = [Find (Some (JStr ''a'')), Create (JObj [(''key'', JStr ''a''), (''v'', JNum 1)])]\<rparr>)"
proof -
  have h1: "createImporter core_store ''merge''
              = Inr (createMergeImporter core_store :: (real, real json list) importer)"
    by (simp add: createImporter_def)
  have h2: "entries_of (map_of [(''key'', JStr ''a''), (''v'', JNum (1::real))] ''key'') [entry ''b'' 7] = []"
    by (simp add: entry_def entries_of_Cons)
  from absent_key_creates_one_entry [OF h1 h2, of "[]"] h1 h2 show ?thesis by simp
qed

section \<open>Unsupported strategies\<close>

text \<open>
  Claim C6. For a strategy name other than "replace", "merge" and "keep", \<open>createImporter\<close>
  throws the error "No importer available for strategy" followed by the name in double quotes.
  The command calls it after the input has parsed to an array and before the loop over the
  records, so the run ends with that error in the world it started in: no record was
  imported and no store call was made. Whatever the input, such a run fails in the world it
  started in.
\<close>

theorem unsupported_strategy_fails_before_any_record:
  assumes "strategy \<noteq> ''replace''" and "strategy \<noteq> ''merge''" and "strategy \<noteq> ''keep''"
  shows "createImporter db strategy
           = Inl (Error (''No importer available for strategy '' @ quoted strategy))
       \<and> (JSON_parse input = Inr v \<and> isArray v \<longrightarrow>
            module_exports JSON_parse db input (Some strategy) w
              = (Inl (Error (''No importer available for strategy '' @ quoted strategy)), w))
       \<and> (\<exists>e. module_exports JSON_parse db input (Some strategy) w = (Inl e, w))"
  using assms
  by (cases "JSON_parse input") (simp_all add: module_exports_def createImporter_def)

theorem unsupported_strategy_fails_before_any_record_witness:
  "''foo'' \<noteq> ''replace'' \<and> ''foo'' \<noteq> ''merge'' \<and> ''foo'' \<noteq> ''keep''
   \<and> isArray (JArr [JObj [(''key'', JStr ''a''), (''v'', JNum (1::real))]])
   \<and> module_exports (\<lambda>s. Inr (JArr [JObj [(''key'', JStr ''a''), (''v'', JNum (1::real))]]))
        core_store ''[...]'' (Some ''foo'') \<lparr>store = [], calls = []\<rparr>
      = (Inl (Error (''No importer available for strategy '' @ [CHR 0x22] @ ''foo'' @ [CHR 0x22])),
         \<lparr>store = [], calls = []\<rparr>)"
  using unsupported_strategy_fails_before_any_record
          [where strategy = "''foo''" and db = core_store and input = "''[...]''"
             and JSON_parse = "\<lambda>s. Inr (JArr [JObj [(''key'', JStr ''a''), (''v'', JNum (1::real))]])"
             and v = "JArr [JObj [(''key'', JStr ''a''), (''v'', JNum (1::real))]]"
             and w = "\<lparr>store = [], calls = []\<rparr>"]
  by (simp add: quoted_def)

section \<open>Invalid input\<close>

text \<open>
  Claim C7. An input that \<^verbatim>\<open>JSON.parse\<close> rejects makes the command fail with the error
  "Invalid input data: <message of the parse error>. Expected a valid JSON array."; an input
  that parses to a value other than an array makes it fail with "Invalid input data. Expected
  a valid JSON array.". In both cases, whatever the strategy, the world is the one the
  command started in: no store call was made and the store is as it was.
\<close>

theorem invalid_input_fails_before_any_store_call:
  "(JSON_parse input = Inl message \<longrightarrow>
      module_exports JSON_parse db input strategy_arg w =
        (Inl (Error (''Invalid input data: '' @ message @ ''. Expected a valid JSON array.'')), w))
   \<and> (JSON_parse input = Inr v \<and> \<not> isArray v \<longrightarrow>
      module_exports JSON_parse db input strategy_arg w =
        (Inl (Error ''Invalid input data. Expected a valid JSON array.''), w))"
  by (simp add: module_exports_def Let_def)

theorem invalid_input_fails_before_any_store_call_witness:
  "module_exports (\<lambda>s. Inl ''Unexpected token o in JSON at position 1'') core_store ''not json''
       (Some ''merge'') \<lparr>store = [JObj [(''key'', JStr ''a''), (''v'', JNum (1::real))]], calls = []\<rparr>
     = (Inl (Error ''Invalid input data: Unexpected token o in JSON at position 1. Expected a valid JSON array.''),
        \<lparr>store = [JObj [(''key'', JStr ''a''), (''v'', JNum 1)]], calls = []\<rparr>)
   \<and> module_exports (\<lambda>s. Inr (JNum 42)) core_store ''42''
       None \<lparr>store = [JObj [(''key'', JStr ''a''), (''v'', JNum (1::real))]], calls = []\<rparr>
     = (Inl (Error ''Invalid input data. Expected a valid JSON array.''),
        \<lparr>store = [JObj [(''key'', JStr ''a''), (''v'', JNum 1)]], calls = []\<rparr>)"
  using invalid_input_fails_before_any_store_call
          [where JSON_parse = "\<lambda>s. Inl ''Unexpected token o in JSON at position 1''"
             and input = "''not json''" and message = "''Unexpected token o in JSON at position 1''"
             and db = core_store and strategy_arg = "Some ''merge''"
             and w = "\<lparr>store = [JObj [(''key'', JStr ''a''), (''v'', JNum (1::real))]], calls = []\<rparr>"]
        invalid_input_fails_before_any_store_call
          [where JSON_parse = "\<lambda>s. Inr (JNum 42)"
             and input = "''42''" and v = "JNum 42"
             and db = core_store and strategy_arg = None
             and w = "\<lparr>store = [JObj [(''key'', JStr ''a''), (''v'', JNum (1::real))]], calls = []\<rparr>"]
  by simp

section \<open>The batch\<close>



section \<open>Duplicate keys in the input\<close>

text \<open>
  Claim C9. Importing \<^verbatim>\<open>[{key:"a",v:1},{key:"a",v:2}]\<close> into a core store that has no entry
  under \<^verbatim>\<open>"a"\<close>: under replace the first record is created and the second overwrites it, so
  the entry under \<^verbatim>\<open>"a"\<close> ends as \<^verbatim>\<open>{key:"a",v:2}\<close>; under keep the first record is created and
  the second import stops after its count, so the entry ends as \<^verbatim>\<open>{key:"a",v:1}\<close>.
\<close>

theorem duplicate_keys_last_or_first_wins:
  assumes "JSON_parse input = Inr (JArr [JObj [(''key'', JStr ''a''), (''v'', JNum (1::real))],
                                          JObj [(''key'', JStr ''a''), (''v'', JNum 2)]])"
    and "entries_of (Some (JStr ''a'')) es = []"
  shows "module_exports JSON_parse core_store input (Some ''replace'') \<lparr>store = es, calls = cs\<rparr>
           = (Inr (''Successfully imported 2 configuration entries using the ''
                    @ quoted ''replace'' @ '' strategy.''),
              \<lparr>store = es @ [JObj [(''key'', JStr ''a''), (''v'', JNum 2)]],
                calls = cs @ [Count (Some (JStr ''a'')),
                              Create (JObj [(''key'', JStr ''a''), (''v'', JNum 1)]),
                              Count (Some (JStr ''a'')),
                              Update (Some (JStr ''a'')) (JObj [(''key'', JStr ''a''), (''v'', JNum 2)])]\<rparr>)
       \<and> entries_of (Some (JStr ''a'')) (es @ [JObj [(''key'', JStr ''a''), (''v'', JNum 2)]])
            = [JObj [(''key'', JStr ''a''), (''v'', JNum 2)]]
       \<and> module_exports JSON_parse core_store input (Some ''keep'') \<lparr>store = es, calls = cs\<rparr>
           = (Inr (''Successfully imported 2 configuration entries using the ''
                    @ quoted ''keep'' @ '' strategy.''),
              \<lparr>store = es @ [JObj [(''key'', JStr ''a''), (''v'', JNum 1)]],
                calls = cs @ [Count (Some (JStr ''a'')),
                              Create (JObj [(''key'', JStr ''a''), (''v'', JNum 1)]),
                              Count (Some (JStr ''a''))]\<rparr>)
       \<and> entries_of (Some (JStr ''a'')) (es @ [JObj [(''key'', JStr ''a''), (''v'', JNum 1)]])
            = [JObj [(''key'', JStr ''a''), (''v'', JNum 1)]]"
  using assms overwrite_absent [OF assms(2)]
  by (simp add: module_exports_def createImporter_def createReplaceImporter_def
        createKeepImporter_def store_call_defs entries_of_Cons decimal.simps digit_def)

theorem duplicate_keys_last_or_first_wins_witness:
  "entries_of (Some (JStr ''a'')) [entry ''b'' 7] = []
   \<and> module_exports (\<lambda>s. Inr (JArr [JObj [(''key'', JStr ''a''), (''v'', JNum (1::real))],
                                     JObj [(''key'', JStr ''a''), (''v'', JNum 2)]]))
        core_store ''[...]'' (Some ''replace'') \<lparr>store = [entry ''b'' 7], calls = []\<rparr>
      = (Inr (''Successfully imported 2 configuration entries using the ''
               @ [CHR 0x22] @ ''replace'' @ [CHR 0x22] @ '' strategy.''),
         \<lparr>store = [entry ''b'' 7, JObj [(''key'', JStr ''a''), (''v'', JNum 2)]],
           calls = [Count (Some (JStr ''a'')),
                    Create (JObj [(''key'', JStr ''a''), (''v'', JNum 1)]),
                    Count (Some (JStr ''a'')),
                    Update (Some (JStr ''a'')) (JObj [(''key'', JStr ''a''), (''v'', JNum 2)])]\<rparr>)
   \<and> module_exports (\<lambda>s. Inr (JArr [JObj [(''key'', JStr ''a''), (''v'', JNum (1::real))],
                                     JObj [(''key'', JStr ''a''), (''v'', JNum 2)]]))
        core_store ''[...]'' (Some ''keep'') \<lparr>store = [entry ''b'' 7], calls = []\<rparr>
      = (Inr (''Successfully imported 2 configuration entries using the ''
               @ [CHR 0x22] @ ''keep'' @ [CHR 0x22] @ '' strategy.''),
         \<lparr>store = [entry ''b'' 7, JObj [(''key'', JStr ''a''), (''v'', JNum 1)]],
           calls = [Count (Some (JStr ''a'')),
                    Create (JObj [(''key'', JStr ''a''), (''v'', JNum 1)]),
                    Count (Some (JStr ''a''))]\<rparr>)"
proof -
  let ?parse = "\<lambda>s::string. Inr (JArr [JObj [(''key'', JStr ''a''), (''v'', JNum (1::real))],
                                         JObj [(''key'', JStr ''a''), (''v'', JNum 2)]]) :: string + real json"
  have h2: "entries_of (Some (JStr ''a'')) [entry ''b'' 7] = []"
    by (simp add: entry_def entries_of_Cons)
  from duplicate_keys_last_or_first_wins
         [where JSON_parse = ?parse and input = "''[...]''" and cs = "[]", OF _ h2] h2
  show ?thesis by (simp add: quoted_def)
qed

section \<open>Records without a key\<close>



end
